theory Spec2Isabelle
  imports Complex_Main
begin

section \<open>JavaScript values used by the OCR pipeline\<close>

text \<open>
  A JavaScript string is a sequence of UTF-16 code units; \<open>length\<close>, \<open>includes\<close> and the
  regular expressions of the program (none has the \<open>u\<close> flag) all work on code units.
  Odia text lies in the block U+0B00..U+0B7F, outside the range of HOL's \<open>char\<close>, so a
  string is modelled as a list of code units.
\<close>

type_synonym jsstring = "nat list"

definition ascii :: "string \<Rightarrow> jsstring" where
  "ascii s = map of_char s"

text \<open>\<open>String(n)\<close> for a non-negative integer: its decimal digits.\<close>

fun decimal :: "nat \<Rightarrow> jsstring" where
  "decimal n = (if n < 10 then [48 + n] else decimal (n div 10) @ [48 + n mod 10])"

declare decimal.simps [simp del]

record bbox =
  x0 :: int
  y0 :: int
  x1 :: int
  y1 :: int

record word =
  w_text :: jsstring
  w_confidence :: rat
  w_bbox :: bbox

record boundary =
  b_x :: int
  b_y :: int
  b_width :: int
  b_height :: int

text \<open>
  \<open>referenceWord\<close> is the anchor's word in the anchor strategy and the object
  \<open>{ bbox: { y0, x0 } }\<close> in the two fallbacks.
\<close>

datatype reference = WordRef word | PointRef (ref_y0: int) (ref_x0: int)

record block =
  voterId :: jsstring
  blockIndex :: nat
  boundary :: boundary
  referenceWord :: reference
  confidence :: rat

section \<open>Grid fallback: \<open>detectBlocksByGrid\<close>\<close>

text \<open>
  \<open>width\<close> and \<open>height\<close> are the integer pixel sizes read from the image metadata.
  \<open>Math.floor(width * 0.02)\<close> is \<open>width div 50\<close> on them, and \<open>Math.floor\<close> of a quotient
  is \<open>div\<close> on \<open>int\<close>, which rounds towards minus infinity as \<open>Math.floor\<close> does.
  The body of the inner loop either skips the cell or pushes a block and increments
  \<open>blockIndex\<close>; the loop state is the pair of \<open>blocks\<close> and \<open>blockIndex\<close>.
\<close>

definition gridCell :: "int \<Rightarrow> int \<Rightarrow> int \<Rightarrow> int \<Rightarrow> nat \<Rightarrow> nat \<Rightarrow> block list \<times> nat \<Rightarrow> block list \<times> nat" where
  "gridCell margin colWidth rowHeight height row col st =
     (let x = margin + int col * (colWidth + margin);
          y = margin + int row * rowHeight
      in if y + rowHeight > height then st
         else (fst st @
                 [\<lparr>voterId = ascii ''GRID_'' @ decimal (snd st + 1),
                   blockIndex = snd st,
                   boundary = \<lparr>b_x = x, b_y = y, b_width = colWidth, b_height = rowHeight\<rparr>,
                   referenceWord = PointRef y x,
                   confidence = 70\<rparr>],
               Suc (snd st)))"

definition gridRow :: "int \<Rightarrow> int \<Rightarrow> int \<Rightarrow> int \<Rightarrow> nat \<Rightarrow> nat \<Rightarrow> block list \<times> nat \<Rightarrow> block list \<times> nat" where
  "gridRow margin colWidth rowHeight height cols row st =
     fold (gridCell margin colWidth rowHeight height row) [0..<cols] st"

definition detectBlocksByGrid :: "int \<Rightarrow> int \<Rightarrow> block list" where
  "detectBlocksByGrid width height =
     (let cols = 3;
          margin = (width * 2) div 100;
          colWidth = (width - margin * 4) div int cols;
          rowHeight = 200;
          rows = (height - margin * 2) div rowHeight
      in fst (fold (gridRow margin colWidth rowHeight height cols) [0..<nat rows] ([], 0)))"

section \<open>Character classes of the regular expressions\<close>

definition isUpperAZ :: "nat \<Rightarrow> bool" where
  "isUpperAZ c = (65 \<le> c \<and> c \<le> 90)"

definition isLowerAZ :: "nat \<Rightarrow> bool" where
  "isLowerAZ c = (97 \<le> c \<and> c \<le> 122)"

definition isDigit :: "nat \<Rightarrow> bool" where
  "isDigit c = (48 \<le> c \<and> c \<le> 57)"

text \<open>\<open>\w\<close> is \<open>[A-Za-z0-9_]\<close>.\<close>

definition isWordChar :: "nat \<Rightarrow> bool" where
  "isWordChar c = (isUpperAZ c \<or> isLowerAZ c \<or> isDigit c \<or> c = 95)"

text \<open>
  \<open>\s\<close>, and the characters \<open>trim\<close> removes: ECMAScript's WhiteSpace and LineTerminator
  code points.
\<close>

definition isWhiteSpace :: "nat \<Rightarrow> bool" where
  "isWhiteSpace c =
     ((9 \<le> c \<and> c \<le> 13) \<or> c = 32 \<or> c = 160 \<or> c = 5760 \<or> (8192 \<le> c \<and> c \<le> 8202)
      \<or> c = 8232 \<or> c = 8233 \<or> c = 8239 \<or> c = 8287 \<or> c = 12288 \<or> c = 65279)"

text \<open>
  \<open>[^A-Z0-9]\<close> under the \<open>i\<close> flag: a code unit is outside the class when it is an ASCII
  letter of either case or a digit (without the \<open>u\<close> flag no code unit above 127
  canonicalizes to an ASCII letter).
\<close>

definition isAlnumAscii :: "nat \<Rightarrow> bool" where
  "isAlnumAscii c = (isUpperAZ c \<or> isLowerAZ c \<or> isDigit c)"

section \<open>Anchor strategy: \<open>findVoterBlockBoundaries\<close> and \<open>calculateBlockBoundary\<close>\<close>

record line =
  l_text :: jsstring
  l_bbox :: bbox

record ocrData =
  d_words :: "word list"
  d_lines :: "line list"
  d_height :: int

record candidate =
  c_word :: word
  c_voterId :: jsstring
  c_confidence :: rat

text \<open>
  \<open>/[A-Z]{3}\d{7}/\<close> and \<open>/[A-Z]{2,4}\d{6,8}/\<close> carry no anchor: \<open>test\<close> succeeds when the
  pattern matches at some position of the string. \<open>voterIdAt\<close> and \<open>relaxedAt\<close> say that
  the pattern matches at the start of the given suffix.
\<close>

definition voterIdAt :: "jsstring \<Rightarrow> bool" where
  "voterIdAt s = (10 \<le> length s \<and> list_all isUpperAZ (take 3 s) \<and> list_all isDigit (take 7 (drop 3 s)))"

definition lettersThenDigits :: "nat \<Rightarrow> nat \<Rightarrow> jsstring \<Rightarrow> bool" where
  "lettersThenDigits k d s =
     (k + d \<le> length s \<and> list_all isUpperAZ (take k s) \<and> list_all isDigit (take d (drop k s)))"

definition relaxedAt :: "jsstring \<Rightarrow> bool" where
  "relaxedAt s = (lettersThenDigits 4 6 s \<or> lettersThenDigits 3 6 s \<or> lettersThenDigits 2 6 s)"

fun voterIdPattern_test :: "jsstring \<Rightarrow> bool" where
  "voterIdPattern_test [] = False"
| "voterIdPattern_test (c # s) = (voterIdAt (c # s) \<or> voterIdPattern_test s)"

fun relaxedPattern_test :: "jsstring \<Rightarrow> bool" where
  "relaxedPattern_test [] = False"
| "relaxedPattern_test (c # s) = (relaxedAt (c # s) \<or> relaxedPattern_test s)"

text \<open>
  \<open>String.prototype.toUpperCase\<close> is a built-in of the language (full Unicode case
  conversion); the functions that call it take it as the parameter \<open>uc\<close>.
  \<open>asciiUpperCase\<close> is what it does on ASCII text.
\<close>

definition asciiUpperCase :: "jsstring \<Rightarrow> jsstring" where
  "asciiUpperCase s = map (\<lambda>c. if isLowerAZ c then c - 32 else c) s"

definition cleanText :: "(jsstring \<Rightarrow> jsstring) \<Rightarrow> word \<Rightarrow> jsstring" where
  "cleanText uc w = uc (filter isAlnumAscii (filter (\<lambda>c. \<not> isWhiteSpace c) (w_text w)))"

text \<open>The first loop: one candidate per word that passes the exact or the relaxed test.\<close>

fun wordCandidates :: "(jsstring \<Rightarrow> jsstring) \<Rightarrow> word list \<Rightarrow> candidate list" where
  "wordCandidates uc [] = []"
| "wordCandidates uc (w # ws) =
     (if voterIdPattern_test (cleanText uc w)
        then [\<lparr>c_word = w, c_voterId = cleanText uc w, c_confidence = w_confidence w\<rparr>]
      else if relaxedPattern_test (cleanText uc w)
        then [\<lparr>c_word = w, c_voterId = cleanText uc w, c_confidence = w_confidence w * (8 / 10)\<rparr>]
      else [])
     @ wordCandidates uc ws"

definition combined :: "(jsstring \<Rightarrow> jsstring) \<Rightarrow> word \<Rightarrow> word \<Rightarrow> jsstring" where
  "combined uc w1 w2 = uc (filter (\<lambda>c. \<not> isWhiteSpace c) (w_text w1 @ w_text w2))"

text \<open>The second loop: adjacent words \<open>words[i]\<close>, \<open>words[i + 1]\<close> for \<open>i < words.length - 1\<close>.\<close>

fun pairCandidates :: "(jsstring \<Rightarrow> jsstring) \<Rightarrow> word list \<Rightarrow> candidate list" where
  "pairCandidates uc (w1 # w2 # ws) =
     (if voterIdPattern_test (combined uc w1 w2)
        then [\<lparr>c_word = w1, c_voterId = combined uc w1 w2,
               c_confidence = ((w_confidence w1 + w_confidence w2) / 2) * (9 / 10)\<rparr>]
      else [])
     @ pairCandidates uc (w2 # ws)"
| "pairCandidates uc ws = []"

definition voterIdCandidates :: "(jsstring \<Rightarrow> jsstring) \<Rightarrow> word list \<Rightarrow> candidate list" where
  "voterIdCandidates uc ws = wordCandidates uc ws @ pairCandidates uc ws"

text \<open>
  \<open>sort((a, b) => b.confidence - a.confidence)\<close>: \<open>Array.prototype.sort\<close> is stable, so
  this is the stable sort by descending confidence. Confidences are finite numbers; they
  are modelled as rationals, with the products by 0.8 and 0.9 exact.
\<close>

definition sortByConfidence :: "candidate list \<Rightarrow> candidate list" where
  "sortByConfidence cs = sort_key (\<lambda>c. - c_confidence c) cs"

text \<open>The \<open>filter\<close> with the set \<open>seen\<close>: the first occurrence of every id is kept.\<close>

fun uniqueBy :: "jsstring set \<Rightarrow> candidate list \<Rightarrow> candidate list" where
  "uniqueBy seen [] = []"
| "uniqueBy seen (c # cs) =
     (if c_voterId c \<in> seen then uniqueBy seen cs
      else c # uniqueBy (insert (c_voterId c) seen) cs)"

definition uniqueVoterIds :: "(jsstring \<Rightarrow> jsstring) \<Rightarrow> word list \<Rightarrow> candidate list" where
  "uniqueVoterIds uc ws = uniqueBy {} (sortByConfidence (voterIdCandidates uc ws))"

text \<open>
  \<open>Math.min(...xs, v)\<close> and \<open>Math.max(...xs, v)\<close> are folds; the coordinates are the
  integer pixel positions of the recogniser.
\<close>

definition calculateBlockBoundary :: "word \<Rightarrow> word option \<Rightarrow> word list \<Rightarrow> int \<Rightarrow> boundary" where
  "calculateBlockBoundary currentVoterWord nextVoterWord allWords imageHeight =
     (let currentY = y0 (w_bbox currentVoterWord);
          blockHeight = 150;
          margin = 10;
          rowWords = filter (\<lambda>w. \<bar>y0 (w_bbox w) - currentY\<bar> < 30) allWords;
          minX = fold min (map (\<lambda>w. x0 (w_bbox w)) rowWords) (x0 (w_bbox currentVoterWord));
          maxX = fold max (map (\<lambda>w. x1 (w_bbox w)) rowWords) (x1 (w_bbox currentVoterWord));
          bottomY = (case nextVoterWord of
                       Some n \<Rightarrow> min (y0 (w_bbox n) - margin) (currentY + blockHeight)
                     | None \<Rightarrow> min (currentY + blockHeight) imageHeight);
          blockWords = filter (\<lambda>w. y0 (w_bbox w) \<ge> currentY - margin \<and> y0 (w_bbox w) \<le> bottomY) allWords;
          bottomY' = (case blockWords of
                        [] \<Rightarrow> bottomY
                      | w # ws \<Rightarrow> min (fold max (map (\<lambda>w. y1 (w_bbox w)) ws) (y1 (w_bbox w)) + margin) bottomY)
      in \<lparr>b_x = max 0 (minX - margin),
          b_y = max 0 (currentY - margin),
          b_width = (maxX - minX) + 2 * margin,
          b_height = (bottomY' - currentY) + margin\<rparr>)"

text \<open>
  The last loop: block \<open>i\<close> is built from candidate \<open>i\<close> and, as its next anchor, the word
  of candidate \<open>i + 1\<close> of the same list when there is one.
\<close>

fun buildBlocks :: "word list \<Rightarrow> int \<Rightarrow> nat \<Rightarrow> candidate list \<Rightarrow> block list" where
  "buildBlocks allWords imageHeight i [] = []"
| "buildBlocks allWords imageHeight i (c # cs) =
     \<lparr>voterId = c_voterId c,
      blockIndex = i,
      boundary = calculateBlockBoundary (c_word c)
                   (case cs of [] \<Rightarrow> None | n # _ \<Rightarrow> Some (c_word n)) allWords imageHeight,
      referenceWord = WordRef (c_word c),
      confidence = c_confidence c\<rparr>
     # buildBlocks allWords imageHeight (Suc i) cs"

definition findVoterBlockBoundaries :: "(jsstring \<Rightarrow> jsstring) \<Rightarrow> ocrData \<Rightarrow> block list" where
  "findVoterBlockBoundaries uc data =
     buildBlocks (d_words data) (d_height data) 0 (uniqueVoterIds uc (d_words data))"

text \<open>\<open>referenceWord.bbox.y0\<close>, and the bottom edge \<open>y + height\<close> of a block.\<close>

fun reference_y0 :: "reference \<Rightarrow> int" where
  "reference_y0 (WordRef w) = y0 (w_bbox w)"
| "reference_y0 (PointRef y x) = y"

definition bottom :: "boundary \<Rightarrow> int" where
  "bottom b = b_y b + b_height b"

text \<open>
  The provisional bottom bound of the boundary calculator, before it is refined by the
  words of the band: the value first assigned to \<open>bottomY\<close>.
\<close>

definition provisionalBottom :: "word \<Rightarrow> word option \<Rightarrow> int \<Rightarrow> int" where
  "provisionalBottom cur nxt h =
     (case nxt of Some n \<Rightarrow> min (y0 (w_bbox n) - 10) (y0 (w_bbox cur) + 150)
                | None \<Rightarrow> min (y0 (w_bbox cur) + 150) h)"

text \<open>A sample page: three identifier words one below the other, the third repeating the first.\<close>

definition anchorWord :: "string \<Rightarrow> rat \<Rightarrow> int \<Rightarrow> int \<Rightarrow> word" where
  "anchorWord t c x y =
     \<lparr>w_text = ascii t, w_confidence = c, w_bbox = \<lparr>x0 = x, y0 = y, x1 = x + 200, y1 = y + 30\<rparr>\<rparr>"

definition samplePage :: ocrData where
  "samplePage = \<lparr>d_words = [anchorWord ''YVY1435841'' 95 100 100,
                              anchorWord ''ABC1234567'' 90 100 400,
                              anchorWord ''yvy1435841'' 60 100 700],
                   d_lines = [], d_height = 3508\<rparr>"

text \<open>
  Two further pages. On the first an identifier is followed in its row by the word
  \<open>Name\<close>. On the second two identifiers printed with a hyphen stand one below the
  other, the lower one recognised with the higher confidence.
\<close>

definition labelledIdPage :: ocrData where
  "labelledIdPage = \<lparr>d_words = [anchorWord ''YVY1435841'' 95 100 100,
                                  anchorWord ''Name'' 90 400 100],
                       d_lines = [], d_height = 3508\<rparr>"

definition twoRowsPage :: ocrData where
  "twoRowsPage = \<lparr>d_words = [anchorWord ''YVY-1435841'' 90 100 100,
                               anchorWord ''ABC-1234567'' 95 100 200],
                    d_lines = [], d_height = 3508\<rparr>"

section \<open>Record validation and age extraction: \<open>isValidVoter\<close>, \<open>extractAge\<close>\<close>

text \<open>The label words of the parser, as code units, in the order of the source.\<close>

definition labelWords :: "jsstring list" where
  "labelWords =
     [[2840, 2864], [2840, 2864, 2878], [2862, 2879, 2864], [2864, 2878, 2862, 2878],
      [2873, 2878, 2823], [2840, 2856], [2840, 2856, 2878], [2840, 2862, 2878], [2856, 2818],
      [2856, 2878, 2862], [2858, 2879, 2852, 2878], [2862, 2878, 2852, 2878],
      [2872, 2893, 2929, 2878, 2862, 2880], [2860, 2911, 2872],
      ascii ''name'', ascii ''father'', ascii ''mother'']"

text \<open>\<open>s.includes(sub)\<close>: \<open>sub\<close> occurs in \<open>s\<close> at some position.\<close>

fun str_includes :: "jsstring \<Rightarrow> jsstring \<Rightarrow> bool" where
  "str_includes [] sub = (sub = [])"
| "str_includes (c # s) sub = (take (length sub) (c # s) = sub \<or> str_includes s sub)"

text \<open>
  The fields of a voter record that validation reads; \<open>v_serialNo\<close> and
  \<open>v_name_english\<close> stand for the fields it does not read.
\<close>

record voter =
  v_serialNo :: nat
  v_voterId :: jsstring
  v_name_odia :: jsstring
  v_name_english :: jsstring
  v_age :: int

text \<open>
  \<open>voter.voterId && voter.voterId.match(/[A-Z]{3}\d{7}/) && ...\<close>: a string is truthy
  when it is not empty, the result of \<open>match\<close> when the pattern occurs in the string.
\<close>

definition isValidVoter :: "voter \<Rightarrow> bool" where
  "isValidVoter v =
     (v_voterId v \<noteq> [] \<and>
      voterIdPattern_test (v_voterId v) \<and>
      length (v_name_odia v) > 2 \<and>
      \<not> list_ex (\<lambda>label. str_includes (v_name_odia v) label) labelWords \<and>
      v_age v \<ge> 18 \<and>
      v_age v \<le> 120)"

text \<open>
  \<open>text.match(/\b(\d{2})\b/g)\<close>: the matches from left to right. A match starts at a
  digit that does not follow a word character, takes two digits and must not be followed
  by a word character; the search resumes after the match. \<open>prevWord\<close> says whether the
  code unit before the current position is a word character.
\<close>

fun twoDigitTokens :: "bool \<Rightarrow> jsstring \<Rightarrow> jsstring list" where
  "twoDigitTokens prevWord [] = []"
| "twoDigitTokens prevWord [c] = []"
| "twoDigitTokens prevWord (c # d # rest) =
     (if \<not> prevWord \<and> isDigit c \<and> isDigit d \<and> (case rest of [] \<Rightarrow> True | e # _ \<Rightarrow> \<not> isWordChar e)
      then [c, d] # twoDigitTokens True rest
      else twoDigitTokens (isWordChar c) (d # rest))"

text \<open>\<open>parseInt\<close> on a string of decimal digits.\<close>

definition parseInt :: "jsstring \<Rightarrow> int" where
  "parseInt ds = foldl (\<lambda>n c. 10 * n + (int c - 48)) 0 ds"

text \<open>The \<open>for\<close> loop over the matches, with its early \<open>return\<close>, and the default 25.\<close>

fun firstAdultAge :: "jsstring list \<Rightarrow> int" where
  "firstAdultAge [] = 25"
| "firstAdultAge (m # ms) =
     (let age = parseInt m in if age \<ge> 18 \<and> age \<le> 120 then age else firstAdultAge ms)"

definition extractAge :: "jsstring \<Rightarrow> int" where
  "extractAge text = firstAdultAge (twoDigitTokens False text)"

text \<open>
  The strict identifier grammar in the words of the specification, for comparison with
  the test that validation applies: exactly three letters followed by seven digits.
\<close>

definition spec_strictIdentifier :: "jsstring \<Rightarrow> bool" where
  "spec_strictIdentifier s =
     (length s = 10 \<and> list_all isUpperAZ (take 3 s) \<and> list_all isDigit (drop 3 s))"

text \<open>A sample record: the name and identifier of the roster's worked example.\<close>

definition sampleVoter :: voter where
  "sampleVoter =
     \<lparr>v_serialNo = 1, v_voterId = ascii ''YVY1435841'',
      v_name_odia = [2858, 2882, 2864, 2893, 2851, 2893, 2851, 2879, 2862, 2878, 32,
                     2860, 2887, 2873, 2887, 2864, 2878],
      v_name_english = ascii ''Purnima Behera'', v_age = 37\<rparr>"

text \<open>
  The block text of the roster's worked example: name, husband's name, age 37 and
  gender, each behind its Odia label.
\<close>

definition sampleText :: jsstring where
  "sampleText =
     [2856, 2878, 2862, 58, 32, 2858, 2882, 2864, 2893, 2851, 2893, 2851, 2879, 2862, 2878,
      32, 2860, 2887, 2873, 2887, 2864, 2878, 32, 32, 2872, 2893, 2860, 2878, 2862, 2880,
      2841, 2893, 2837, 32, 2856, 2878, 2862, 58, 32, 2872, 2818, 2844, 2911, 32, 2860,
      2887, 2873, 2887, 2864, 2878, 32, 32, 2860, 2911, 2872, 58, 32, 51, 55, 32, 2866,
      2879, 2839, 2818, 32, 58, 32, 2872, 2893, 2852, 2893, 2864, 2880]"

section \<open>Structural fallback: \<open>detectBlocksByVisualStructure\<close>\<close>

text \<open>\<open>currentBlock\<close>: the lines of a group and the box around them.\<close>

record lineGroup =
  g_lines :: "line list"
  g_minY :: int
  g_maxY :: int
  g_minX :: int
  g_maxX :: int

definition startGroup :: "line \<Rightarrow> lineGroup" where
  "startGroup line =
     \<lparr>g_lines = [line], g_minY = y0 (l_bbox line), g_maxY = y1 (l_bbox line),
      g_minX = x0 (l_bbox line), g_maxX = x1 (l_bbox line)\<rparr>"

definition joinGroup :: "lineGroup \<Rightarrow> line \<Rightarrow> lineGroup" where
  "joinGroup cb line =
     cb\<lparr>g_lines := g_lines cb @ [line],
        g_maxY := max (g_maxY cb) (y1 (l_bbox line)),
        g_minX := min (g_minX cb) (x0 (l_bbox line)),
        g_maxX := max (g_maxX cb) (x1 (l_bbox line))\<rparr>"

text \<open>
  One turn of the loop over the lines. The state is \<open>blocks\<close> and \<open>currentBlock\<close>
  (\<open>None\<close> for \<open>null\<close>); \<open>spaceThreshold\<close> is 40.
\<close>

definition groupStep :: "line \<Rightarrow> lineGroup list \<times> lineGroup option \<Rightarrow> lineGroup list \<times> lineGroup option" where
  "groupStep line st =
     (case snd st of
        None \<Rightarrow> (fst st, Some (startGroup line))
      | Some currentBlock \<Rightarrow>
          (let gap = y0 (l_bbox line) - g_maxY currentBlock
           in if gap < 40 then (fst st, Some (joinGroup currentBlock line))
              else (fst st @ [currentBlock], Some (startGroup line))))"

text \<open>After the loop: \<open>if (currentBlock) blocks.push(currentBlock)\<close>.\<close>

definition closeGroups :: "lineGroup list \<times> lineGroup option \<Rightarrow> lineGroup list" where
  "closeGroups st = (case snd st of None \<Rightarrow> fst st | Some currentBlock \<Rightarrow> fst st @ [currentBlock])"

definition groupLines :: "line list \<Rightarrow> lineGroup list" where
  "groupLines lns = closeGroups (fold groupStep lns ([], None))"

text \<open>
  \<open>text.match(/[A-Z]{3}\d{7}|[A-Z]{2,4}\d{6,8}/)\<close>: the match at the leftmost position
  where one of the alternatives matches; there the first alternative is tried first,
  then the second with as many letters (4, 3, 2) and then as many digits (up to 8) as
  possible.
\<close>

definition digitRun :: "jsstring \<Rightarrow> nat" where
  "digitRun s = length (takeWhile isDigit (take 8 s))"

definition idMatchAt :: "jsstring \<Rightarrow> jsstring option" where
  "idMatchAt s =
     (if voterIdAt s then Some (take 10 s)
      else if lettersThenDigits 4 6 s then Some (take (4 + digitRun (drop 4 s)) s)
      else if lettersThenDigits 3 6 s then Some (take (3 + digitRun (drop 3 s)) s)
      else if lettersThenDigits 2 6 s then Some (take (2 + digitRun (drop 2 s)) s)
      else None)"

fun voterIdMatch :: "jsstring \<Rightarrow> jsstring option" where
  "voterIdMatch [] = None"
| "voterIdMatch (c # s) =
     (case idMatchAt (c # s) of Some m \<Rightarrow> Some m | None \<Rightarrow> voterIdMatch s)"

text \<open>\<open>parts.join(' ')\<close>.\<close>

fun joinSpace :: "jsstring list \<Rightarrow> jsstring" where
  "joinSpace [] = []"
| "joinSpace [p] = p"
| "joinSpace (p # q # ps) = p @ [32] @ joinSpace (q # ps)"

text \<open>The final \<open>blocks.map((block, index) => ...)\<close>.\<close>

definition structuralBlock :: "nat \<Rightarrow> lineGroup \<Rightarrow> block" where
  "structuralBlock index g =
     (let text = joinSpace (map l_text (g_lines g));
          voterIdMatch = voterIdMatch text
      in \<lparr>voterId = (case voterIdMatch of Some m \<Rightarrow> m
                      | None \<Rightarrow> ascii ''BLOCK_'' @ decimal (index + 1)),
          blockIndex = index,
          boundary = \<lparr>b_x = g_minX g, b_y = g_minY g,
                      b_width = g_maxX g - g_minX g, b_height = g_maxY g - g_minY g\<rparr>,
          referenceWord = PointRef (g_minY g) (g_minX g),
          confidence = 75\<rparr>)"

definition detectBlocksByVisualStructure :: "ocrData \<Rightarrow> block list" where
  "detectBlocksByVisualStructure data =
     (if d_lines data = [] then []
      else map (\<lambda>(index, g). structuralBlock index g) (enumerate 0 (groupLines (d_lines data))))"

definition textLine :: "string \<Rightarrow> int \<Rightarrow> int \<Rightarrow> line" where
  "textLine t ya yb = \<lparr>l_text = ascii t, l_bbox = \<lparr>x0 = 100, y0 = ya, x1 = 900, y1 = yb\<rparr>\<rparr>"

section \<open>Translation cache: \<open>translateToEnglish\<close>\<close>

definition isOdia :: "nat \<Rightarrow> bool" where
  "isOdia c = (2816 \<le> c \<and> c \<le> 2943)"

text \<open>\<open>isOdiaText\<close> tests the class of the code units U+0B00..U+0B7F.\<close>

definition isOdiaText :: "jsstring \<Rightarrow> bool" where
  "isOdiaText text = list_ex isOdia text"

definition trim :: "jsstring \<Rightarrow> jsstring" where
  "trim s = rev (dropWhile isWhiteSpace (rev (dropWhile isWhiteSpace s)))"

text \<open>\<open>replace(/\s+/g, ' ')\<close>: every maximal run of white space becomes one space.\<close>

function collapseSpaces :: "jsstring \<Rightarrow> jsstring" where
  "collapseSpaces [] = []"
| "collapseSpaces (c # s) =
     (if isWhiteSpace c then 32 # collapseSpaces (dropWhile isWhiteSpace s)
      else c # collapseSpaces s)"
  by pat_completeness auto
termination
  by (relation "measure length") (auto simp: length_dropWhile_le less_Suc_eq_le)

text \<open>
  The last \<open>replace\<close> of \<open>normalizeText\<close> deletes what is outside the class of word
  characters, white space, the Odia block and the hyphen (the final \<open>-\<close> of the class).
\<close>

definition normalizeText :: "jsstring \<Rightarrow> jsstring" where
  "normalizeText text =
     filter (\<lambda>c. isWordChar c \<or> isWhiteSpace c \<or> isOdia c \<or> c = 45)
       (collapseSpaces (trim text))"

text \<open>
  The transliteration table of \<open>romanizeOdia\<close>. The virama (2893) is mapped to the empty
  string, which is falsy, so \<open>map[char] || char\<close> keeps the virama itself.
\<close>

definition romanTable :: "(nat \<times> string) list" where
  "romanTable =
     [(2837, ''ka''), (2838, ''kha''), (2839, ''ga''), (2840, ''gha''), (2841, ''nga''),
      (2842, ''cha''), (2843, ''chha''), (2844, ''ja''), (2845, ''jha''), (2846, ''nya''),
      (2847, ''ta''), (2848, ''tha''), (2849, ''da''), (2850, ''dha''), (2851, ''na''),
      (2852, ''ta''), (2853, ''tha''), (2854, ''da''), (2855, ''dha''), (2856, ''na''),
      (2858, ''pa''), (2859, ''pha''), (2860, ''ba''), (2861, ''bha''), (2862, ''ma''),
      (2863, ''ya''), (2864, ''ra''), (2866, ''la''), (2867, ''la''), (2870, ''sha''),
      (2871, ''sha''), (2872, ''sa''), (2873, ''ha''), (2878, ''a''), (2879, ''i''),
      (2880, ''i''), (2881, ''u''), (2882, ''u''), (2887, ''e''), (2888, ''ai''),
      (2891, ''o''), (2892, ''au''), (2818, ''m''), (2819, ''h''), (2893, []),
      (2821, ''a''), (2822, ''a''), (2823, ''i''), (2824, ''i''), (2825, ''u''),
      (2826, ''u''), (2831, ''e''), (2832, ''ai''), (2835, ''o''), (2836, ''au'')]"

definition romanizeChar :: "nat \<Rightarrow> jsstring" where
  "romanizeChar c =
     (case map_of romanTable c of
        Some r \<Rightarrow> (if r = [] then [c] else ascii r)
      | None \<Rightarrow> [c])"

text \<open>
  \<open>capitalizeWords\<close>. It is applied to romanized normalized text, whose code units are
  ASCII or Odia; there \<open>toLowerCase\<close> and \<open>toUpperCase\<close> change ASCII letters only.
\<close>

definition asciiLowerCase :: "jsstring \<Rightarrow> jsstring" where
  "asciiLowerCase s = map (\<lambda>c. if isUpperAZ c then c + 32 else c) s"

fun splitSpace :: "jsstring \<Rightarrow> jsstring list" where
  "splitSpace [] = [[]]"
| "splitSpace (c # s) =
     (if c = 32 then [] # splitSpace s
      else (case splitSpace s of [] \<Rightarrow> [[c]] | w # ws \<Rightarrow> (c # w) # ws))"

definition capitalizeWords :: "jsstring \<Rightarrow> jsstring" where
  "capitalizeWords text =
     (if text = [] then []
      else joinSpace (map (\<lambda>word. asciiUpperCase (take 1 word) @ drop 1 word)
                        (splitSpace (asciiLowerCase text))))"

definition romanizeOdia :: "jsstring \<Rightarrow> jsstring" where
  "romanizeOdia text = capitalizeWords (concat (map romanizeChar text))"

text \<open>
  The translator object (\<open>cache\<close>, \<open>lastRequestTime\<close>, \<open>minRequestInterval\<close>) together
  with the clock read by \<open>Date.now()\<close>.
\<close>

record translator =
  cache :: "jsstring \<rightharpoonup> jsstring"
  lastRequestTime :: int
  minRequestInterval :: int
  clock :: int

text \<open>
  \<open>const translate = await import('translate')\<close>: a dynamic import resolves to the module
  namespace object of the package (the import is taken to succeed; when it fails the
  method rejects as well). A module namespace object refuses every assignment to its
  properties and is not callable.
\<close>

datatype error = TypeError

datatype imported = ModuleNamespace

text \<open>
  \<open>translate.engine = 'google'\<close>, the second statement of the method. The body of a
  class is strict code, where an assignment that the object refuses throws TypeError.
\<close>

definition assignEngine :: "imported \<Rightarrow> error + imported" where
  "assignEngine m = (case m of ModuleNamespace \<Rightarrow> Inl TypeError)"

text \<open>\<open>translate(normalizedText, { from: 'or', to: 'en' })\<close>: calling what was imported.\<close>

definition callTranslate :: "imported \<Rightarrow> jsstring \<Rightarrow> error + jsstring" where
  "callTranslate m text = (case m of ModuleNamespace \<Rightarrow> Inl TypeError)"

text \<open>
  The statements of \<open>translateToEnglish\<close> behind the assignment: the blank test, the cache
  lookup, the two early returns, and the \<open>try\<close> block with the wait for the minimum
  interval, the call, and the \<open>catch\<close> that falls back to \<open>romanizeOdia\<close>.
\<close>

definition translateBody :: "imported \<Rightarrow> jsstring \<Rightarrow> translator \<Rightarrow> jsstring \<times> translator" where
  "translateBody translate text st =
     (if text = [] \<or> trim text = [] then ([], st)
      else
        let normalizedText = normalizeText text in
        case cache st normalizedText of
          Some v \<Rightarrow> (v, st)
        | None \<Rightarrow>
            if \<not> isOdiaText normalizedText then (normalizedText, st)
            else if length normalizedText < 3 then (normalizedText, st)
            else
              let now = clock st;
                  timeSinceLastRequest = now - lastRequestTime st;
                  waited = (if timeSinceLastRequest < minRequestInterval st
                            then st\<lparr>clock := now + (minRequestInterval st - timeSinceLastRequest)\<rparr>
                            else st)
              in case callTranslate translate normalizedText of
                   Inr result \<Rightarrow>
                     (result, waited\<lparr>lastRequestTime := clock waited,
                                     cache := (cache waited)(normalizedText \<mapsto> result)\<rparr>)
                 | Inl e \<Rightarrow> (romanizeOdia normalizedText, waited))"

text \<open>
  The method: an exception that leaves it (the rejection of its promise) is \<open>Inl\<close>, and
  the translator is then as it was; a returned string comes with the translator as the
  call left it.
\<close>

definition translateToEnglish :: "jsstring \<Rightarrow> translator \<Rightarrow> error + jsstring \<times> translator" where
  "translateToEnglish text st =
     (let translate = ModuleNamespace
      in case assignEngine translate of
           Inl e \<Rightarrow> Inl e
         | Inr translate' \<Rightarrow> Inr (translateBody translate' text st))"

definition clearCache :: "translator \<Rightarrow> translator" where
  "clearCache st = st\<lparr>cache := Map.empty\<rparr>"

text \<open>The translator as constructed.\<close>

definition newTranslator :: translator where
  "newTranslator =
     \<lparr>cache = Map.empty, lastRequestTime = 0, minRequestInterval = 300, clock = 1000\<rparr>"

section \<open>Field extraction: \<open>extractKeyValues\<close>\<close>

text \<open>
  The table \<open>keys\<close>: the first element of a row is the name of the field; all elements
  of the row, the name included, are the label alternatives of its pattern. None of them
  contains a character that the escaping \<open>replace\<close> would change.
\<close>

definition keys :: "jsstring list list" where
  "keys =
     [[ascii ''name'', [2856, 2878, 2862], ascii ''Name''],
      [ascii ''age'', [2860, 2911, 2872], ascii ''Age''],
      [ascii ''gender'', [2866, 2879, 2839, 2818], [2866, 2879, 2818, 2839], ascii ''Gender''],
      [ascii ''houseNo'', [2840, 2864, 32, 2856, 2818], ascii ''House No'',
       [2840, 2864, 32, 2856, 2862, 2893, 2860, 2864]],
      [ascii ''guardianName'',
       [2872, 2893, 2860, 2878, 2862, 2880, 2841, 2893, 2837, 32, 2856, 2878, 2862],
       ascii ''Husband Name'',
       [2872, 2893, 2929, 2878, 2862, 2880],
       ascii ''Husband'',
       [2858, 2879, 2852, 2878, 2841, 2893, 2837, 32, 2856, 2878, 2862],
       ascii ''Father Name'',
       [2862, 2878, 2852, 2878, 2841, 2893, 2837, 32, 2856, 2878, 2862],
       ascii ''Mother Name'']]"

definition allKeyAlternatives :: "jsstring list" where
  "allKeyAlternatives = concat keys"

text \<open>
  Matching a code unit of a label under the \<open>i\<close> flag (no \<open>u\<close> flag): the labels consist
  of ASCII letters, the space and Odia code units, so two code units match when they are
  equal up to the case of ASCII letters.
\<close>

definition upperUnit :: "nat \<Rightarrow> nat" where
  "upperUnit c = (if isLowerAZ c then c - 32 else c)"

text \<open>A label at the start of \<open>s\<close>: the rest of \<open>s\<close> behind it.\<close>

fun matchLabel :: "jsstring \<Rightarrow> jsstring \<Rightarrow> jsstring option" where
  "matchLabel [] s = Some s"
| "matchLabel (p # ps) [] = None"
| "matchLabel (p # ps) (c # s) = (if upperUnit c = upperUnit p then matchLabel ps s else None)"

text \<open>\<open>\s*:\<close> at the start of \<open>s\<close>, as a test and with the rest behind the colon.\<close>

fun colonAfterSpaces :: "jsstring \<Rightarrow> bool" where
  "colonAfterSpaces [] = False"
| "colonAfterSpaces (c # s) = (c = 58 \<or> (isWhiteSpace c \<and> colonAfterSpaces s))"

fun afterColon :: "jsstring \<Rightarrow> jsstring option" where
  "afterColon [] = None"
| "afterColon (c # s) = (if c = 58 then Some s else if isWhiteSpace c then afterColon s else None)"

text \<open>
  The lookahead \<open>(?=\s*(?:k1|k2|...)\s*:|$)\<close>: some label followed by \<open>\s*:\<close> after any
  number of white space code units, or the end of the input (the flags are \<open>is\<close>, so
  \<open>$\<close> is the end of the input only).
\<close>

definition labelColonAt :: "jsstring list \<Rightarrow> jsstring \<Rightarrow> bool" where
  "labelColonAt alts s =
     list_ex (\<lambda>a. case matchLabel a s of Some r \<Rightarrow> colonAfterSpaces r | None \<Rightarrow> False) alts"

fun keyColonAhead :: "jsstring list \<Rightarrow> jsstring \<Rightarrow> bool" where
  "keyColonAhead alts [] = labelColonAt alts []"
| "keyColonAhead alts (c # s) =
     (labelColonAt alts (c # s) \<or> (isWhiteSpace c \<and> keyColonAhead alts s))"

definition lookahead :: "jsstring list \<Rightarrow> jsstring \<Rightarrow> bool" where
  "lookahead alts s = (keyColonAhead alts s \<or> s = [])"

text \<open>
  The lazy group \<open>(.+?)\<close> takes one code unit (any, under the \<open>s\<close> flag) and then as few
  more as possible: \<open>captureRest\<close> extends the capture until the lookahead holds.
\<close>

fun captureRest :: "jsstring list \<Rightarrow> jsstring \<Rightarrow> jsstring" where
  "captureRest alts [] = []"
| "captureRest alts (c # s) = (if lookahead alts (c # s) then [] else c # captureRest alts s)"

text \<open>
  \<open>\s*(.+?)\<close> behind the colon: the white space is skipped and the capture starts at the
  first other code unit; when only white space is left, \<open>\s*\<close> gives back its last code
  unit to the capture; with nothing left there is no match.
\<close>

definition captureValue :: "jsstring list \<Rightarrow> jsstring \<Rightarrow> jsstring option" where
  "captureValue alts r =
     (case dropWhile isWhiteSpace r of
        c # s \<Rightarrow> Some (c # captureRest alts s)
      | [] \<Rightarrow> (if r = [] then None else Some [last r]))"

text \<open>The alternatives of the key are tried in order at one position of the input.\<close>

fun matchKeyAt :: "jsstring list \<Rightarrow> jsstring list \<Rightarrow> jsstring \<Rightarrow> jsstring option" where
  "matchKeyAt [] alts s = None"
| "matchKeyAt (k # ks) alts s =
     (case (case matchLabel k s of
              Some r0 \<Rightarrow> (case afterColon r0 of Some r \<Rightarrow> captureValue alts r | None \<Rightarrow> None)
            | None \<Rightarrow> None) of
        Some v \<Rightarrow> Some v
      | None \<Rightarrow> matchKeyAt ks alts s)"

text \<open>\<open>inputText.match(regex)\<close>: the match at the leftmost position; its group 1.\<close>

fun matchKey :: "jsstring list \<Rightarrow> jsstring list \<Rightarrow> jsstring \<Rightarrow> jsstring option" where
  "matchKey key alts [] = matchKeyAt key alts []"
| "matchKey key alts (c # s) =
     (case matchKeyAt key alts (c # s) of Some v \<Rightarrow> Some v | None \<Rightarrow> matchKey key alts s)"

text \<open>
  \<open>value.split(/\n+|\s{3,}/)[0]\<close>: the part before the first line feed or the first run
  of three white space code units.
\<close>

fun firstPart :: "jsstring \<Rightarrow> jsstring" where
  "firstPart [] = []"
| "firstPart (c # s) =
     (if c = 10 \<or> (2 \<le> length s \<and> list_all isWhiteSpace (c # take 2 s)) then []
      else c # firstPart s)"

definition fieldValue :: "jsstring \<Rightarrow> jsstring" where
  "fieldValue captured = trim (firstPart (trim captured))"

text \<open>
  \<open>keys.forEach\<close>: the result object as the list of its entries, in the order in which
  they are set (the field names are distinct).
\<close>

definition extractField :: "jsstring \<Rightarrow> jsstring list \<Rightarrow> (jsstring \<times> jsstring) list" where
  "extractField inputText key =
     (case key of
        [] \<Rightarrow> []
      | keyName # _ \<Rightarrow>
          (case matchKey key allKeyAlternatives inputText of
             Some captured \<Rightarrow> [(keyName, fieldValue captured)]
           | None \<Rightarrow> []))"

definition extractKeyValues :: "jsstring \<Rightarrow> (jsstring \<times> jsstring) list" where
  "extractKeyValues inputText = concat (map (extractField inputText) keys)"

section \<open>Properties of the grid fallback\<close>

lemma gridCell_kept:
  "margin + int row * rowHeight + rowHeight \<le> height \<Longrightarrow>
   length (fst (gridCell margin colWidth rowHeight height row col st)) = Suc (length (fst st))"
  by (simp add: gridCell_def Let_def)

lemma gridRow_kept:
  "margin + int row * rowHeight + rowHeight \<le> height \<Longrightarrow>
   length (fst (fold (gridCell margin colWidth rowHeight height row) cs st))
     = length cs + length (fst st)"
  by (induction cs arbitrary: st) (simp_all add: gridCell_kept)

lemma grid_rows_kept:
  "(\<And>row. row \<in> set rs \<Longrightarrow> margin + int row * rowHeight + rowHeight \<le> height) \<Longrightarrow>
   length (fst (fold (gridRow margin colWidth rowHeight height cols) rs st))
     = cols * length rs + length (fst st)"
proof (induction rs arbitrary: st)
  case Nil
  then show ?case by simp
next
  case (Cons r rs)
  have r: "margin + int r * rowHeight + rowHeight \<le> height"
    using Cons.prems by simp
  have "length (fst (gridRow margin colWidth rowHeight height cols r st)) = cols + length (fst st)"
    unfolding gridRow_def using gridRow_kept [OF r, of colWidth "[0..<cols]" st] by simp
  moreover have "length (fst (fold (gridRow margin colWidth rowHeight height cols) rs
                    (gridRow margin colWidth rowHeight height cols r st)))
      = cols * length rs + length (fst (gridRow margin colWidth rowHeight height cols r st))"
    using Cons.IH [of "gridRow margin colWidth rowHeight height cols r st"] Cons.prems by simp
  ultimately show ?case by simp
qed

lemma margin_div_50: "(W * 2) div 100 = (W::int) div 50"
proof -
  have "(W * 2) div (50 * 2) = W div 50" by (rule div_mult_mult2) simp
  then show ?thesis by simp
qed

lemma grid_row_inside:
  assumes "0 \<le> m" and "int row < (h - m * 2) div 200"
  shows "m + int row * 200 + 200 \<le> h"
proof -
  have "(int row + 1) * 200 \<le> ((h - m * 2) div 200) * 200"
    using assms(2) by simp
  also have "\<dots> \<le> h - m * 2"
    by (simp add: algebra_simps)
  finally show ?thesis using assms(1) by (simp add: algebra_simps)
qed

text \<open>
  C1 (amended). For every page of positive width W and height H the grid fallback returns
  exactly 3 * floor((H - 2*margin) / 200) blocks, with margin = floor(0.02 * W), and no
  block when that quotient is not positive: the row count is rounded down, not up, and a
  row that would not fit the page is never emitted.
\<close>

theorem grid_block_count:
  assumes "0 < W" and "0 < H"
  shows "length (detectBlocksByGrid W H) = 3 * nat ((H - 2 * (W div 50)) div 200)"
proof -
  define m where "m = (W * 2) div 100"
  have m50: "m = W div 50" unfolding m_def by (rule margin_div_50)
  have m0: "0 \<le> m" using assms(1) unfolding m50 by simp
  have inside: "m + int row * 200 + 200 \<le> H"
    if "row \<in> set [0..<nat ((H - m * 2) div 200)]" for row
    using that grid_row_inside [OF m0, of row H] by simp
  have unfolded: "detectBlocksByGrid W H =
      fst (fold (gridRow m ((W - m * 4) div int 3) 200 H 3)
                   [0..<nat ((H - m * 2) div 200)] ([], 0))"
    unfolding detectBlocksByGrid_def Let_def m_def by (rule refl)
  have "length (fst (fold (gridRow m ((W - m * 4) div int 3) 200 H 3)
                   [0..<nat ((H - m * 2) div 200)] ([], 0)))
        = 3 * length [0..<nat ((H - m * 2) div 200)] + length (fst (([], 0) :: block list \<times> nat))"
    by (rule grid_rows_kept) (rule inside)
  then have "length (detectBlocksByGrid W H) = 3 * nat ((H - m * 2) div 200)"
    unfolding unfolded by simp
  then show ?thesis
    unfolding m50 by (simp add: mult.commute)
qed

theorem grid_block_count_witness:
  "(0::int) < 2480 \<and> (0::int) < 3508 \<and> length (detectBlocksByGrid 2480 3508) = 51"
  using grid_block_count [of 2480 3508] by simp

text \<open>
  On a 100 x 100 page the claimed count 3 * ceiling((100 - 2*2) / 200) is 3, and the
  fallback returns no block at all.
\<close>

theorem grid_block_count_counterexample:
  "detectBlocksByGrid 100 100 = [] \<and>
   length (detectBlocksByGrid 100 100)
     \<noteq> nat (3 * \<lceil>(100 - 2 * of_int \<lfloor>(2 / 100 :: rat) * 100\<rfloor>) / (200 :: rat)\<rceil>)"
  by (simp add: detectBlocksByGrid_def)

section \<open>Properties of the anchor strategy\<close>

text \<open>The character classes, for evaluating the sample pages.\<close>

lemmas char_defs = ascii_def asciiUpperCase_def isAlnumAscii_def isWhiteSpace_def isUpperAZ_def
  isLowerAZ_def isDigit_def

lemma boundary_height_le:
  "b_height (calculateBlockBoundary cur nxt ws h) \<le> provisionalBottom cur nxt h - y0 (w_bbox cur) + 10"
  by (simp add: calculateBlockBoundary_def provisionalBottom_def Let_def split: list.split option.split)

lemma boundary_y: "b_y (calculateBlockBoundary cur nxt ws h) = max 0 (y0 (w_bbox cur) - 10)"
  by (simp add: calculateBlockBoundary_def Let_def)

lemma boundary_bottom_le_next:
  assumes "0 \<le> y0 (w_bbox cur)"
  shows "bottom (calculateBlockBoundary cur (Some n) ws h) \<le> y0 (w_bbox n)"
proof -
  have "b_height (calculateBlockBoundary cur (Some n) ws h) \<le> y0 (w_bbox n) - 10 - y0 (w_bbox cur) + 10"
    using boundary_height_le [of cur "Some n" ws h] by (simp add: provisionalBottom_def)
  then show ?thesis using assms by (simp add: bottom_def boundary_y)
qed

lemma labelledIdPage_candidates:
  "uniqueVoterIds asciiUpperCase (d_words labelledIdPage) =
     [\<lparr>c_word = anchorWord ''YVY1435841'' 95 100 100, c_voterId = ascii ''YVY1435841'',
       c_confidence = 95\<rparr>,
      \<lparr>c_word = anchorWord ''YVY1435841'' 95 100 100, c_voterId = ascii ''YVY1435841NAME'',
       c_confidence = 333 / 4\<rparr>]"
  by (simp add: uniqueVoterIds_def sortByConfidence_def voterIdCandidates_def labelledIdPage_def
        cleanText_def combined_def anchorWord_def char_defs voterIdAt_def lettersThenDigits_def
        relaxedAt_def)

text \<open>
  C4. Every block of the boundary calculator should have non-negative coordinates and a
  boundary of strictly positive width and height within the page. The code breaks this
  on an ordinary page: the next anchor handed to the calculator is the next candidate
  by confidence, not the next voter on the page. On the page with an identifier followed
  by the word \<open>Name\<close> the next candidate is the pair candidate anchored at the
  identifier's own word, so the bottom bound is put 10px above the identifier and its
  block gets height 0.
\<close>

theorem identifier_block_has_no_height:
  "map (\<lambda>b. (voterId b, boundary b)) (findVoterBlockBoundaries asciiUpperCase labelledIdPage)
     = [(ascii ''YVY1435841'', \<lparr>b_x = 90, b_y = 90, b_width = 520, b_height = 0\<rparr>),
        (ascii ''YVY1435841NAME'', \<lparr>b_x = 90, b_y = 90, b_width = 520, b_height = 50\<rparr>)]
   \<and> \<not> 0 < b_height (boundary (findVoterBlockBoundaries asciiUpperCase labelledIdPage ! 0))"
  unfolding findVoterBlockBoundaries_def labelledIdPage_candidates
  by (simp add: calculateBlockBoundary_def labelledIdPage_def anchorWord_def)

lemma wordCandidates_word: "c \<in> set (wordCandidates uc ws) \<Longrightarrow> c_word c \<in> set ws"
  by (induction ws) (auto split: if_splits)

lemma pairCandidates_word: "c \<in> set (pairCandidates uc ws) \<Longrightarrow> c_word c \<in> set ws"
  by (induction uc ws rule: pairCandidates.induct) (auto split: if_splits)

lemma uniqueBy_subset: "set (uniqueBy seen cs) \<subseteq> set cs"
  by (induction cs arbitrary: seen) auto

lemma uniqueVoterIds_subset: "set (uniqueVoterIds uc ws) \<subseteq> set (voterIdCandidates uc ws)"
  using uniqueBy_subset [of "{}" "sortByConfidence (voterIdCandidates uc ws)"]
  by (simp add: uniqueVoterIds_def sortByConfidence_def)

lemma uniqueVoterIds_word: "c \<in> set (uniqueVoterIds uc ws) \<Longrightarrow> c_word c \<in> set ws"
  using uniqueVoterIds_subset [of uc ws]
  by (auto simp: voterIdCandidates_def dest: wordCandidates_word pairCandidates_word)

lemma buildBlocks_length: "length (buildBlocks ws h k cs) = length cs"
  by (induction cs arbitrary: k) simp_all

lemma buildBlocks_nth_ref:
  "i < length cs \<Longrightarrow> referenceWord (buildBlocks ws h k cs ! i) = WordRef (c_word (cs ! i))"
proof (induction cs arbitrary: i k)
  case Nil
  then show ?case by simp
next
  case (Cons c cs)
  then show ?case by (cases i) simp_all
qed

lemma buildBlocks_nth_boundary:
  "Suc i < length cs \<Longrightarrow>
   boundary (buildBlocks ws h k cs ! i)
     = calculateBlockBoundary (c_word (cs ! i)) (Some (c_word (cs ! Suc i))) ws h"
proof (induction cs arbitrary: i k)
  case Nil
  then show ?case by simp
next
  case (Cons c cs)
  show ?case
  proof (cases i)
    case 0
    then show ?thesis using Cons.prems by (cases cs) simp_all
  next
    case (Suc j)
    then show ?thesis using Cons by simp
  qed
qed

text \<open>
  What the block loop does ensure: the block of candidate \<open>i\<close> ends at or above the word
  of candidate \<open>i + 1\<close> of the list ordered by confidence, the word it is given as next
  anchor.
\<close>

lemma next_candidate_bound:
  assumes nonneg: "\<forall>w \<in> set (d_words data). 0 \<le> y0 (w_bbox w)"
      and i: "Suc i < length (findVoterBlockBoundaries uc data)"
  shows "bottom (boundary (findVoterBlockBoundaries uc data ! i))
           \<le> reference_y0 (referenceWord (findVoterBlockBoundaries uc data ! Suc i))"
proof -
  let ?cs = "uniqueVoterIds uc (d_words data)"
  have len: "Suc i < length ?cs"
    using i by (simp add: findVoterBlockBoundaries_def buildBlocks_length)
  then have "?cs ! i \<in> set ?cs" by simp
  then have "c_word (?cs ! i) \<in> set (d_words data)" by (rule uniqueVoterIds_word)
  then have cur: "0 \<le> y0 (w_bbox (c_word (?cs ! i)))" using nonneg by blast
  have "bottom (calculateBlockBoundary (c_word (?cs ! i)) (Some (c_word (?cs ! Suc i)))
                  (d_words data) (d_height data))
          \<le> y0 (w_bbox (c_word (?cs ! Suc i)))"
    using cur by (rule boundary_bottom_le_next)
  then show ?thesis
    using len by (simp add: findVoterBlockBoundaries_def buildBlocks_nth_boundary buildBlocks_nth_ref)
qed

lemma twoRowsPage_candidates:
  "uniqueVoterIds asciiUpperCase (d_words twoRowsPage) =
     [\<lparr>c_word = anchorWord ''ABC-1234567'' 95 100 200, c_voterId = ascii ''ABC1234567'',
       c_confidence = 95\<rparr>,
      \<lparr>c_word = anchorWord ''YVY-1435841'' 90 100 100, c_voterId = ascii ''YVY1435841'',
       c_confidence = 90\<rparr>]"
  by (simp add: uniqueVoterIds_def sortByConfidence_def voterIdCandidates_def twoRowsPage_def
        cleanText_def combined_def anchorWord_def char_defs voterIdAt_def lettersThenDigits_def
        relaxedAt_def)

text \<open>
  C2. For two anchors A before B that follow one another on a page, the block built for
  A should end at or above B's word: bottom of Block(A) <= B.word.bbox.y0. The code
  breaks this, because the anchor it takes as next is the next candidate by confidence:
  on the page with identifier A at y0 = 100 (confidence 90) above identifier B at
  y0 = 200 (confidence 95) the block of A is built last, without a next anchor, and its
  bottom edge is 240, below the top of B's word.
\<close>

theorem block_reaches_into_next_on_page:
  "map (\<lambda>b. (voterId b, reference_y0 (referenceWord b), bottom (boundary b)))
       (findVoterBlockBoundaries asciiUpperCase twoRowsPage)
     = [(ascii ''ABC1234567'', 200, 90), (ascii ''YVY1435841'', 100, 240)]
   \<and> \<not> bottom (boundary (findVoterBlockBoundaries asciiUpperCase twoRowsPage ! Suc 0))
         \<le> reference_y0 (referenceWord (findVoterBlockBoundaries asciiUpperCase twoRowsPage ! 0))"
  unfolding findVoterBlockBoundaries_def twoRowsPage_candidates
  by (simp add: calculateBlockBoundary_def bottom_def twoRowsPage_def anchorWord_def)

lemma uniqueBy_filter_seen:
  "v \<in> seen \<Longrightarrow> filter (\<lambda>c. c_voterId c = v) (uniqueBy seen cs) = []"
  by (induction cs arbitrary: seen) auto

lemma uniqueBy_filter_first:
  "v \<notin> seen \<Longrightarrow>
   filter (\<lambda>c. c_voterId c = v) (uniqueBy seen cs)
     = (case find (\<lambda>c. c_voterId c = v) cs of None \<Rightarrow> [] | Some c \<Rightarrow> [c])"
proof (induction cs arbitrary: seen)
  case Nil
  then show ?case by simp
next
  case (Cons c cs)
  show ?case
  proof (cases "c_voterId c = v")
    case True
    then show ?thesis using Cons.prems by (simp add: uniqueBy_filter_seen)
  next
    case False
    then show ?thesis using Cons by auto
  qed
qed

lemma sorted_first_best:
  "sorted (map f xs) \<Longrightarrow> find P xs = Some c \<Longrightarrow> c' \<in> set xs \<Longrightarrow> P c' \<Longrightarrow> f c \<le> f c'"
proof (induction xs)
  case Nil
  then show ?case by simp
next
  case (Cons x xs)
  show ?case
  proof (cases "P x")
    case True
    then have "c = x" using Cons.prems(2) by simp
    then show ?thesis using Cons.prems(1,3) by auto
  next
    case False
    then have "c' \<in> set xs" using Cons.prems(3,4) by auto
    moreover have "find P xs = Some c" using False Cons.prems(2) by simp
    moreover have "sorted (map f xs)" using Cons.prems(1) by simp
    ultimately show ?thesis using Cons.IH Cons.prems(4) by blast
  qed
qed

lemma buildBlocks_filter_none:
  "filter (\<lambda>c. c_voterId c = v) cs = [] \<Longrightarrow> filter (\<lambda>b. voterId b = v) (buildBlocks ws h k cs) = []"
  by (induction cs arbitrary: k) (auto split: if_splits)

lemma buildBlocks_filter_one:
  "filter (\<lambda>c. c_voterId c = v) cs = [c] \<Longrightarrow>
   \<exists>b. filter (\<lambda>b. voterId b = v) (buildBlocks ws h k cs) = [b]
       \<and> voterId b = c_voterId c \<and> referenceWord b = WordRef (c_word c)
       \<and> confidence b = c_confidence c"
proof (induction cs arbitrary: k)
  case Nil
  then show ?case by simp
next
  case (Cons x cs)
  show ?case
  proof (cases "c_voterId x = v")
    case True
    then have "x = c" and "filter (\<lambda>c. c_voterId c = v) cs = []"
      using Cons.prems by simp_all
    then show ?thesis using True by (simp add: buildBlocks_filter_none)
  next
    case False
    then have "filter (\<lambda>c. c_voterId c = v) cs = [c]" using Cons.prems by simp
    from Cons.IH [OF this, of "Suc k"] show ?thesis using False by simp
  qed
qed

lemma wordCandidates_exact:
  "w \<in> set ws \<Longrightarrow> voterIdPattern_test (cleanText uc w) \<Longrightarrow>
   \<lparr>c_word = w, c_voterId = cleanText uc w, c_confidence = w_confidence w\<rparr>
     \<in> set (wordCandidates uc ws)"
  by (induction ws) auto

text \<open>
  C3. For every word list, the cleaned text of every word that passes the strict
  identifier test is the id of exactly one block of the detector's output, and that
  block carries a candidate of this id whose confidence is the highest among all
  candidates of this id.
\<close>

theorem anchor_ids_unique_best:
  assumes w: "w \<in> set (d_words data)"
      and strict: "voterIdPattern_test (cleanText uc w)"
  shows "\<exists>b. filter (\<lambda>b. voterId b = cleanText uc w) (findVoterBlockBoundaries uc data) = [b]
           \<and> (\<exists>c \<in> set (voterIdCandidates uc (d_words data)).
                 c_voterId c = voterId b \<and> WordRef (c_word c) = referenceWord b
                 \<and> c_confidence c = confidence b)
           \<and> (\<forall>c \<in> set (voterIdCandidates uc (d_words data)).
                 c_voterId c = cleanText uc w \<longrightarrow> c_confidence c \<le> confidence b)"
proof -
  let ?v = "cleanText uc w"
  let ?cands = "voterIdCandidates uc (d_words data)"
  let ?sorted = "sortByConfidence ?cands"
  have set_sorted: "set ?sorted = set ?cands" by (simp add: sortByConfidence_def)
  have sorted: "sorted (map (\<lambda>c. - c_confidence c) ?sorted)"
    by (simp add: sortByConfidence_def)
  have "\<lparr>c_word = w, c_voterId = ?v, c_confidence = w_confidence w\<rparr> \<in> set ?cands"
    using wordCandidates_exact [OF w strict] by (simp add: voterIdCandidates_def)
  then have "\<exists>c \<in> set ?sorted. c_voterId c = ?v" unfolding set_sorted by force
  then obtain c where first: "find (\<lambda>c. c_voterId c = ?v) ?sorted = Some c"
    by (cases "find (\<lambda>c. c_voterId c = ?v) ?sorted") (auto simp: find_None_iff)
  then have c: "c \<in> set ?cands" "c_voterId c = ?v"
    using set_sorted by (auto simp: find_Some_iff)
  have "filter (\<lambda>c. c_voterId c = ?v) (uniqueVoterIds uc (d_words data)) = [c]"
    using uniqueBy_filter_first [of ?v "{}" ?sorted] first by (simp add: uniqueVoterIds_def)
  from buildBlocks_filter_one [OF this, of "d_words data" "d_height data" 0]
  obtain b where b: "filter (\<lambda>b. voterId b = ?v) (findVoterBlockBoundaries uc data) = [b]"
      "voterId b = c_voterId c" "referenceWord b = WordRef (c_word c)"
      "confidence b = c_confidence c"
    unfolding findVoterBlockBoundaries_def by blast
  have best: "c_confidence c' \<le> confidence b"
    if "c' \<in> set ?cands" "c_voterId c' = ?v" for c'
  proof -
    have "- c_confidence c \<le> - c_confidence c'"
      using sorted first that(1) that(2) unfolding set_sorted [symmetric]
      by (rule sorted_first_best)
    then show ?thesis using b(4) by simp
  qed
  show ?thesis
  proof (intro exI conjI)
    show "filter (\<lambda>b. voterId b = ?v) (findVoterBlockBoundaries uc data) = [b]" by (rule b(1))
    show "\<exists>c \<in> set ?cands. c_voterId c = voterId b \<and> WordRef (c_word c) = referenceWord b
                 \<and> c_confidence c = confidence b"
      using c(1) b(2,3,4) by auto
    show "\<forall>c \<in> set ?cands. c_voterId c = ?v \<longrightarrow> c_confidence c \<le> confidence b"
      using best by blast
  qed
qed


theorem anchor_ids_unique_best_witness:
  "anchorWord ''yvy1435841'' 60 100 700 \<in> set (d_words samplePage)
   \<and> voterIdPattern_test (cleanText asciiUpperCase (anchorWord ''yvy1435841'' 60 100 700))
   \<and> (\<exists>b. filter (\<lambda>b. voterId b = cleanText asciiUpperCase (anchorWord ''yvy1435841'' 60 100 700))
               (findVoterBlockBoundaries asciiUpperCase samplePage) = [b]
           \<and> (\<exists>c \<in> set (voterIdCandidates asciiUpperCase (d_words samplePage)).
                 c_voterId c = voterId b \<and> WordRef (c_word c) = referenceWord b
                 \<and> c_confidence c = confidence b)
           \<and> (\<forall>c \<in> set (voterIdCandidates asciiUpperCase (d_words samplePage)).
                 c_voterId c = cleanText asciiUpperCase (anchorWord ''yvy1435841'' 60 100 700)
                 \<longrightarrow> c_confidence c \<le> confidence b))"
proof -
  have mem: "anchorWord ''yvy1435841'' 60 100 700 \<in> set (d_words samplePage)"
    by (simp add: samplePage_def)
  have strict: "voterIdPattern_test (cleanText asciiUpperCase (anchorWord ''yvy1435841'' 60 100 700))"
    by (simp add: cleanText_def anchorWord_def char_defs voterIdAt_def)
  show ?thesis
    using mem strict anchor_ids_unique_best [OF mem strict]
    by (intro conjI)
qed

section \<open>Properties of record validation and age extraction\<close>

lemma voterIdPattern_test_nonempty: "voterIdPattern_test s \<Longrightarrow> s \<noteq> []"
  by (cases s) simp_all

lemma sampleVoter_checks:
  "voterIdPattern_test (v_voterId sampleVoter)"
  "2 < length (v_name_odia sampleVoter)"
  "\<not> list_ex (\<lambda>label. str_includes (v_name_odia sampleVoter) label) labelWords"
  by (simp_all add: sampleVoter_def labelWords_def voterIdAt_def ascii_def isUpperAZ_def isDigit_def)

lemma strict_passes_test: "spec_strictIdentifier s \<Longrightarrow> voterIdPattern_test s"
proof -
  assume a: "spec_strictIdentifier s"
  then have "voterIdAt s" by (simp add: spec_strictIdentifier_def voterIdAt_def)
  moreover have "s \<noteq> []" using a by (auto simp: spec_strictIdentifier_def)
  ultimately show ?thesis by (cases s) simp_all
qed

text \<open>
  C5 (amended). A record passes validation only if its identifier contains three capital
  letters followed by seven digits, its script name is longer than 2 and contains no
  label word, and its age lies in [18,120]. Every identifier that consists of exactly
  three letters and seven digits passes the identifier test, but the test does not ask
  for that form. Ages 17 and 121 are rejected whatever the other fields are; ages 18 and
  120 are accepted for a record that meets the identifier and name conditions.
\<close>

theorem record_validation:
  "(isValidVoter v \<longrightarrow> voterIdPattern_test (v_voterId v) \<and> 2 < length (v_name_odia v)
        \<and> \<not> list_ex (\<lambda>label. str_includes (v_name_odia v) label) labelWords
        \<and> 18 \<le> v_age v \<and> v_age v \<le> 120)
   \<and> \<not> isValidVoter (v\<lparr>v_age := 17\<rparr>)
   \<and> \<not> isValidVoter (v\<lparr>v_age := 121\<rparr>)
   \<and> (voterIdPattern_test (v_voterId v) \<and> 2 < length (v_name_odia v)
        \<and> \<not> list_ex (\<lambda>label. str_includes (v_name_odia v) label) labelWords
        \<longrightarrow> isValidVoter (v\<lparr>v_age := 18\<rparr>) \<and> isValidVoter (v\<lparr>v_age := 120\<rparr>))
   \<and> (spec_strictIdentifier (v_voterId v) \<longrightarrow> voterIdPattern_test (v_voterId v))"
  using voterIdPattern_test_nonempty [of "v_voterId v"] strict_passes_test [of "v_voterId v"]
  by (auto simp: isValidVoter_def)

theorem record_validation_witness:
  "isValidVoter sampleVoter
   \<and> spec_strictIdentifier (v_voterId sampleVoter)
   \<and> voterIdPattern_test (v_voterId sampleVoter) \<and> 2 < length (v_name_odia sampleVoter)
   \<and> \<not> list_ex (\<lambda>label. str_includes (v_name_odia sampleVoter) label) labelWords
   \<and> 18 \<le> v_age sampleVoter \<and> v_age sampleVoter \<le> 120
   \<and> \<not> isValidVoter (sampleVoter\<lparr>v_age := 17\<rparr>)
   \<and> \<not> isValidVoter (sampleVoter\<lparr>v_age := 121\<rparr>)
   \<and> isValidVoter (sampleVoter\<lparr>v_age := 18\<rparr>)
   \<and> isValidVoter (sampleVoter\<lparr>v_age := 120\<rparr>)"
proof -
  have "isValidVoter sampleVoter"
    using sampleVoter_checks voterIdPattern_test_nonempty [of "v_voterId sampleVoter"]
    by (simp add: isValidVoter_def) (simp add: sampleVoter_def)
  moreover have "spec_strictIdentifier (v_voterId sampleVoter)"
    by (simp add: spec_strictIdentifier_def sampleVoter_def ascii_def isUpperAZ_def isDigit_def)
  ultimately show ?thesis
    using sampleVoter_checks record_validation [of sampleVoter] by blast
qed

text \<open>
  Two identifiers that are not of the form of three letters and seven digits, one of
  them an id that the anchor detector itself produces from a pair of words, in records
  that pass validation.
\<close>

theorem record_validation_counterexample:
  "isValidVoter (sampleVoter\<lparr>v_voterId := ascii ''YVY1435841ABC1234567''\<rparr>)
   \<and> \<not> spec_strictIdentifier (v_voterId (sampleVoter\<lparr>v_voterId := ascii ''YVY1435841ABC1234567''\<rparr>))
   \<and> isValidVoter (sampleVoter\<lparr>v_voterId := ascii ''xxABC1234567yy''\<rparr>)
   \<and> \<not> spec_strictIdentifier (v_voterId (sampleVoter\<lparr>v_voterId := ascii ''xxABC1234567yy''\<rparr>))"
  using sampleVoter_checks(2,3)
  by (simp add: isValidVoter_def spec_strictIdentifier_def ascii_def voterIdAt_def isUpperAZ_def
        isDigit_def) (simp add: sampleVoter_def)

lemma firstAdultAge_range: "18 \<le> firstAdultAge ms \<and> firstAdultAge ms \<le> 120"
  by (induction ms) (simp_all add: Let_def)

lemma firstAdultAge_find:
  "firstAdultAge ms = (case find (\<lambda>a. 18 \<le> a \<and> a \<le> 120) (map parseInt ms) of
                         Some a \<Rightarrow> a | None \<Rightarrow> 25)"
  by (induction ms) (simp_all add: Let_def)

lemma sampleText_age: "extractAge sampleText = 37"
  by (simp add: extractAge_def parseInt_def sampleText_def isDigit_def isWordChar_def
        isUpperAZ_def isLowerAZ_def)

text \<open>
  C10. For every text, age extraction returns an integer in [18,120]: the value of the
  first standalone two-digit token whose value lies in [18,120] when there is one, and
  25 otherwise. Hence a record whose age comes from the extractor passes validation
  exactly when its identifier and name pass: the age clause never rejects it.
\<close>

theorem extractAge_total_in_range:
  "18 \<le> extractAge text \<and> extractAge text \<le> 120
   \<and> extractAge text
        = (case find (\<lambda>a. 18 \<le> a \<and> a \<le> 120) (map parseInt (twoDigitTokens False text)) of
             Some a \<Rightarrow> a | None \<Rightarrow> 25)
   \<and> (isValidVoter (v\<lparr>v_age := extractAge text\<rparr>)
        \<longleftrightarrow> voterIdPattern_test (v_voterId v) \<and> 2 < length (v_name_odia v)
             \<and> \<not> list_ex (\<lambda>label. str_includes (v_name_odia v) label) labelWords)"
  using firstAdultAge_range [of "twoDigitTokens False text"]
        firstAdultAge_find [of "twoDigitTokens False text"]
        voterIdPattern_test_nonempty [of "v_voterId v"]
  by (auto simp: extractAge_def isValidVoter_def)

theorem extractAge_total_in_range_witness:
  "extractAge sampleText = 37
   \<and> twoDigitTokens False sampleText = [ascii ''37'']
   \<and> extractAge (ascii ''No 7, 05 137 a41 99x 17'') = 25
   \<and> isValidVoter (sampleVoter\<lparr>v_age := extractAge sampleText\<rparr>)"
proof -
  have "twoDigitTokens False sampleText = [ascii ''37'']"
    by (simp add: sampleText_def isDigit_def isWordChar_def isUpperAZ_def isLowerAZ_def ascii_def)
  moreover have "extractAge (ascii ''No 7, 05 137 a41 99x 17'') = 25"
    by (simp add: extractAge_def parseInt_def isDigit_def isWordChar_def isUpperAZ_def
          isLowerAZ_def ascii_def)
  ultimately show ?thesis
    using extractAge_total_in_range [of sampleText sampleVoter] sampleVoter_checks sampleText_age
    by simp
qed

section \<open>Properties of the structural fallback\<close>

lemma fold_groupStep_current:
  "lns \<noteq> [] \<or> snd st \<noteq> None \<Longrightarrow> snd (fold groupStep lns st) \<noteq> None"
proof (induction lns arbitrary: st)
  case Nil
  then show ?case by simp
next
  case (Cons line lns)
  have "snd (groupStep line st) \<noteq> None"
    by (simp add: groupStep_def Let_def split: option.split)
  then show ?case using Cons.IH [of "groupStep line st"] by simp
qed

lemma fold_groupStep_lines:
  "concat (map g_lines (closeGroups (fold groupStep lns st)))
     = concat (map g_lines (closeGroups st)) @ lns"
proof (induction lns arbitrary: st)
  case Nil
  then show ?case by simp
next
  case (Cons line lns)
  have "concat (map g_lines (closeGroups (groupStep line st)))
          = concat (map g_lines (closeGroups st)) @ [line]"
    by (simp add: groupStep_def closeGroups_def startGroup_def joinGroup_def Let_def
          split: option.split)
  then show ?case using Cons.IH [of "groupStep line st"] by simp
qed

lemma groupLines_partition: "concat (map g_lines (groupLines lns)) = lns"
  using fold_groupStep_lines [of lns "([], None)"]
  by (simp add: groupLines_def closeGroups_def)

text \<open>
  C8 (amended). In the structural fallback the groups split the list of lines into
  consecutive runs, and a line that follows another starts a new group exactly when the
  gap from the bottom edge of the current group (the largest y1 of its lines) to the
  line's top edge y0 is at least 40px; with a gap below 40px the line joins the current
  group.
\<close>

theorem structural_grouping:
  assumes "lns \<noteq> []"
  shows "\<exists>gs g. groupLines lns = gs @ [g]
           \<and> groupLines (lns @ [line])
               = (if 40 \<le> y0 (l_bbox line) - g_maxY g then gs @ [g, startGroup line]
                  else gs @ [joinGroup g line])"
proof -
  obtain cb where cb: "snd (fold groupStep lns ([], None)) = Some cb"
    using fold_groupStep_current [of lns "([], None)"] assms by auto
  let ?gs = "fst (fold groupStep lns ([], None))"
  have a: "groupLines lns = ?gs @ [cb]"
    by (simp add: groupLines_def closeGroups_def cb)
  have b: "groupLines (lns @ [line])
            = (if 40 \<le> y0 (l_bbox line) - g_maxY cb then ?gs @ [cb, startGroup line]
               else ?gs @ [joinGroup cb line])"
    by (simp add: groupLines_def closeGroups_def groupStep_def cb Let_def)
  show ?thesis using a b by blast
qed

theorem structural_grouping_witness:
  "[textLine ''a'' 0 100] \<noteq> []
   \<and> (\<exists>gs g. groupLines [textLine ''a'' 0 100] = gs @ [g]
         \<and> groupLines ([textLine ''a'' 0 100] @ [textLine ''b'' 139 200])
             = (if 40 \<le> y0 (l_bbox (textLine ''b'' 139 200)) - g_maxY g
                then gs @ [g, startGroup (textLine ''b'' 139 200)]
                else gs @ [joinGroup g (textLine ''b'' 139 200)]))
   \<and> groupLines [textLine ''a'' 0 100, textLine ''b'' 139 200]
       = [joinGroup (startGroup (textLine ''a'' 0 100)) (textLine ''b'' 139 200)]"
proof -
  have "groupLines [textLine ''a'' 0 100, textLine ''b'' 139 200]
       = [joinGroup (startGroup (textLine ''a'' 0 100)) (textLine ''b'' 139 200)]"
    by (simp add: groupLines_def groupStep_def closeGroups_def Let_def textLine_def startGroup_def)
  then show ?thesis
    using structural_grouping [of "[textLine ''a'' 0 100]" "textLine ''b'' 139 200"]
    by simp
qed

text \<open>
  A line whose top edge is exactly 40px below the bottom edge of the group before it:
  the gap does not exceed 40px, and the line starts a group of its own.
\<close>

theorem structural_grouping_counterexample:
  "\<not> 40 < y0 (l_bbox (textLine ''b'' 140 200)) - y1 (l_bbox (textLine ''a'' 0 100))
   \<and> groupLines [textLine ''a'' 0 100, textLine ''b'' 140 200]
       = [startGroup (textLine ''a'' 0 100), startGroup (textLine ''b'' 140 200)]
   \<and> length (detectBlocksByVisualStructure
               \<lparr>d_words = [], d_lines = [textLine ''a'' 0 100, textLine ''b'' 140 200],
                d_height = 3508\<rparr>) = 2"
  by (simp add: detectBlocksByVisualStructure_def groupLines_def groupStep_def closeGroups_def
        Let_def textLine_def startGroup_def)

section \<open>Properties of the translation cache\<close>

text \<open>
  Every call of the method ends at the assignment to the imported module; and the
  statements behind it could not reach the translation service either, since the call
  of the imported object throws and the \<open>catch\<close> answers with the transliteration.
\<close>

lemma translateToEnglish_throws: "translateToEnglish text st = Inl TypeError"
  by (simp add: translateToEnglish_def assignEngine_def)

lemma body_catches_call:
  "fst (translateBody ModuleNamespace [2856, 2878, 2862] newTranslator) = romanizeOdia [2856, 2878, 2862]"
  by (simp add: translateBody_def callTranslate_def normalizeText_def trim_def isWhiteSpace_def
        isWordChar_def isOdia_def isUpperAZ_def isLowerAZ_def isDigit_def isOdiaText_def Let_def
        newTranslator_def)

text \<open>
  C7. For an input without Odia code units, and for an input whose normalized form is
  shorter than 3, translateToEnglish should return the text unchanged and issue no
  external call. The code returns nothing for such inputs: the call throws TypeError at
  \<open>translate.engine = 'google'\<close>, before the blank test and both early returns.
\<close>

theorem translate_short_input_throws:
  "\<not> isOdiaText (ascii ''abc'')
   \<and> translateToEnglish (ascii ''abc'') newTranslator = Inl TypeError
   \<and> length (normalizeText [2856, 2878]) < 3
   \<and> translateToEnglish [2856, 2878] newTranslator = Inl TypeError"
  by (simp add: translateToEnglish_throws isOdiaText_def isOdia_def ascii_def normalizeText_def
        trim_def isWhiteSpace_def)


section \<open>Properties of field extraction\<close>

lemmas extract_defs = extractKeyValues_def extractField_def keys_def allKeyAlternatives_def
  fieldValue_def captureValue_def lookahead_def labelColonAt_def upperUnit_def trim_def
  isWhiteSpace_def isLowerAZ_def ascii_def

text \<open>
  The lazy capture stops at the first position behind its first code unit where the
  lookahead holds: no label followed by a colon begins inside the part that
  \<open>captureRest\<close> adds. The first code unit of the capture is taken unchecked.
\<close>

lemma captureRest_stops:
  "n < length (captureRest alts s) \<Longrightarrow> \<not> lookahead alts (drop n s)"
proof (induction s arbitrary: n)
  case Nil
  then show ?case by simp
next
  case (Cons c s)
  show ?case
  proof (cases "lookahead alts (c # s)")
    case True
    then show ?thesis using Cons.prems by simp
  next
    case False
    show ?thesis
    proof (cases n)
      case 0
      then show ?thesis using False by simp
    next
      case (Suc m)
      then have "m < length (captureRest alts s)" using Cons.prems False by simp
      then show ?thesis using Cons.IH Suc by simp
    qed
  qed
qed

text \<open>
  C9. Field extraction is meant to be idempotent: no label followed by a colon should
  survive inside an extracted value, so that the extractor finds no field in a value it
  produced. The code breaks this when a label follows the colon of another label
  directly: on the input \<open>Name:Age:30\<close> the value of the field \<open>name\<close> is \<open>Age:30\<close>, and
  the extractor applied to that value finds the field \<open>age\<close> in it.
\<close>

theorem extract_nested_field:
  "extractKeyValues (ascii ''Name:Age:30'')
     = [(ascii ''name'', ascii ''Age:30''), (ascii ''age'', ascii ''30'')]
   \<and> extractKeyValues (ascii ''Age:30'') = [(ascii ''age'', ascii ''30'')]"
  by (simp add: extract_defs)

end
